theory Spec2Isabelle
  imports Complex_Main "HOL-Library.Monad_Syntax" "HOL-Library.Multiset"
begin

section \<open>JavaScript numbers\<close>

text \<open>
  The program computes on the JavaScript Number type. A Number is modelled as a real
  number, one of the two zeros, one of the two infinities, or NaN. The special values
  follow ECMAScript (NaN propagates, \<open>x / 0\<close> is an infinity or NaN and never raises,
  comparisons with NaN are false, \<open>Math.max\<close> and \<open>Math.min\<close> return NaN when an
  argument is NaN, \<open>Math.sqrt\<close> of a negative number is NaN). A finite result is
  computed over the reals and then brought into the range of a double: a result of
  magnitude \<open>2^1024 - 2^970\<close> or more rounds to an infinity, and a product, quotient,
  exponential or parsed literal of magnitude \<open>2^-1075\<close> or less rounds to a zero. (A sum
  or difference of two doubles is a multiple of \<open>2^-1074\<close> and never rounds to zero.) The
  rounding of the mantissa to 53 bits is not modelled. \<open>Fin 0\<close> is the positive zero
  and \<open>NZero\<close> the negative one.
\<close>

datatype jsnum = NaN | PInf | NInf | NZero | Fin real

fun signbit :: "jsnum \<Rightarrow> bool" where
  "signbit NInf = True"
| "signbit NZero = True"
| "signbit (Fin r) = (r < 0)"
| "signbit _ = False"

fun is_nan :: "jsnum \<Rightarrow> bool" where
  "is_nan NaN = True"
| "is_nan _ = False"

fun is_inf :: "jsnum \<Rightarrow> bool" where
  "is_inf PInf = True"
| "is_inf NInf = True"
| "is_inf _ = False"

fun is_zero :: "jsnum \<Rightarrow> bool" where
  "is_zero NZero = True"
| "is_zero (Fin r) = (r = 0)"
| "is_zero _ = False"

text \<open>\<open>Number.isFinite\<close>: neither NaN nor an infinity.\<close>

fun isFinite :: "jsnum \<Rightarrow> bool" where
  "isFinite NZero = True"
| "isFinite (Fin r) = True"
| "isFinite _ = False"

text \<open>The real value of a finite Number (0 for the others, where it is never used).\<close>

fun val :: "jsnum \<Rightarrow> real" where
  "val (Fin r) = r"
| "val _ = 0"

definition mk_zero :: "bool \<Rightarrow> jsnum" where
  "mk_zero s = (if s then NZero else Fin 0)"

definition mk_inf :: "bool \<Rightarrow> jsnum" where
  "mk_inf s = (if s then NInf else PInf)"

text \<open>
  The largest double is \<open>2^1024 - 2^971\<close>; round-to-nearest takes everything from the
  midpoint \<open>2^1024 - 2^970\<close> on to an infinity. The smallest positive double is
  \<open>2^-1074\<close>; everything up to the midpoint \<open>2^-1075\<close> rounds to a zero.
\<close>

definition overflow_bound :: real where
  "overflow_bound = 2 ^ 1024 - 2 ^ 970"

definition underflow_bound :: real where
  "underflow_bound = 1 / 2 ^ 1075"

text \<open>The result \<open>r\<close> of a sum or difference that is not a sum of two zeros.\<close>

definition mk_sum :: "real \<Rightarrow> jsnum" where
  "mk_sum r = (if overflow_bound \<le> \<bar>r\<bar> then mk_inf (r < 0) else Fin r)"

text \<open>The result \<open>r\<close>, of sign \<open>s\<close>, of a product, quotient, exponential or literal.\<close>

definition mk_fin :: "bool \<Rightarrow> real \<Rightarrow> jsnum" where
  "mk_fin s r =
     (if overflow_bound \<le> \<bar>r\<bar> then mk_inf s
      else if \<bar>r\<bar> \<le> underflow_bound then mk_zero s
      else Fin r)"

text \<open>\<open>Number::add\<close>. The sum of two zeros is negative only when both are.\<close>

definition js_add :: "jsnum \<Rightarrow> jsnum \<Rightarrow> jsnum" where
  "js_add x y =
     (if is_nan x \<or> is_nan y then NaN
      else if is_inf x \<and> is_inf y then (if x = y then x else NaN)
      else if is_inf x then x
      else if is_inf y then y
      else if x = NZero \<and> y = NZero then NZero
      else mk_sum (val x + val y))"

text \<open>\<open>Number::unaryMinus\<close>.\<close>

fun js_neg :: "jsnum \<Rightarrow> jsnum" where
  "js_neg NaN = NaN"
| "js_neg PInf = NInf"
| "js_neg NInf = PInf"
| "js_neg NZero = Fin 0"
| "js_neg (Fin r) = (if r = 0 then NZero else Fin (- r))"

text \<open>\<open>Number::subtract\<close> is addition of the negated right operand.\<close>

definition js_sub :: "jsnum \<Rightarrow> jsnum \<Rightarrow> jsnum" where
  "js_sub x y = js_add x (js_neg y)"

text \<open>\<open>Number::multiply\<close>: zero times infinity is NaN; the sign is the xor of the signs.\<close>

definition js_mul :: "jsnum \<Rightarrow> jsnum \<Rightarrow> jsnum" where
  "js_mul x y =
     (if is_nan x \<or> is_nan y then NaN
      else if (is_inf x \<and> is_zero y) \<or> (is_zero x \<and> is_inf y) then NaN
      else if is_inf x \<or> is_inf y then mk_inf (signbit x \<noteq> signbit y)
      else mk_fin (signbit x \<noteq> signbit y) (val x * val y))"

text \<open>
  \<open>Number::divide\<close>: never raises. \<open>0 / 0\<close> and \<open>\<infinity> / \<infinity>\<close> are NaN, a non-zero number
  divided by a zero is an infinity.
\<close>

definition js_div :: "jsnum \<Rightarrow> jsnum \<Rightarrow> jsnum" where
  "js_div x y =
     (if is_nan x \<or> is_nan y then NaN
      else if is_inf x \<and> is_inf y then NaN
      else if is_zero x \<and> is_zero y then NaN
      else if is_inf x then mk_inf (signbit x \<noteq> signbit y)
      else if is_inf y then mk_zero (signbit x \<noteq> signbit y)
      else if is_zero y then mk_inf (signbit x \<noteq> signbit y)
      else mk_fin (signbit x \<noteq> signbit y) (val x / val y))"

text \<open>\<open>x < y\<close>: false when an operand is NaN; the two zeros are equal.\<close>

fun js_lt :: "jsnum \<Rightarrow> jsnum \<Rightarrow> bool" where
  "js_lt NaN _ = False"
| "js_lt _ NaN = False"
| "js_lt PInf _ = False"
| "js_lt _ PInf = True"
| "js_lt _ NInf = False"
| "js_lt NInf _ = True"
| "js_lt x y = (val x < val y)"

text \<open>\<open>x <= y\<close> is \<open>\<not> (y < x)\<close>, and false when an operand is NaN.\<close>

definition js_le :: "jsnum \<Rightarrow> jsnum \<Rightarrow> bool" where
  "js_le x y = (\<not> is_nan x \<and> \<not> is_nan y \<and> \<not> js_lt y x)"

text \<open>
  The operators of the source are written \<open>+\<close>, \<open>-\<close>, \<open>*\<close>, \<open>/\<close>, \<open><\<close>, \<open>\<le>\<close> on \<open>jsnum\<close>.
  Only the syntax is shared with HOL's numbers: no algebraic law is assumed.
\<close>

instantiation jsnum :: "{plus, minus, uminus, times, inverse, ord}"
begin

definition plus_jsnum :: "jsnum \<Rightarrow> jsnum \<Rightarrow> jsnum" where
  "plus_jsnum x y = js_add x y"

definition minus_jsnum :: "jsnum \<Rightarrow> jsnum \<Rightarrow> jsnum" where
  "minus_jsnum x y = js_sub x y"

definition uminus_jsnum :: "jsnum \<Rightarrow> jsnum" where
  "uminus_jsnum x = js_neg x"

definition times_jsnum :: "jsnum \<Rightarrow> jsnum \<Rightarrow> jsnum" where
  "times_jsnum x y = js_mul x y"

definition divide_jsnum :: "jsnum \<Rightarrow> jsnum \<Rightarrow> jsnum" where
  "divide_jsnum x y = js_div x y"

definition inverse_jsnum :: "jsnum \<Rightarrow> jsnum" where
  "inverse_jsnum x = js_div (Fin 1) x"

definition less_jsnum :: "jsnum \<Rightarrow> jsnum \<Rightarrow> bool" where
  "less_jsnum x y = js_lt x y"

definition less_eq_jsnum :: "jsnum \<Rightarrow> jsnum \<Rightarrow> bool" where
  "less_eq_jsnum x y = js_le x y"

instance ..

end

text \<open>
  \<open>Math.max\<close> and \<open>Math.min\<close> of two arguments: NaN when an argument is NaN, and the
  positive zero is larger than the negative zero.
\<close>

definition Math_max :: "jsnum \<Rightarrow> jsnum \<Rightarrow> jsnum" where
  "Math_max x y =
     (if is_nan x \<or> is_nan y then NaN
      else if x < y then y
      else if y < x then x
      else if x = NZero then y else x)"

definition Math_min :: "jsnum \<Rightarrow> jsnum \<Rightarrow> jsnum" where
  "Math_min x y =
     (if is_nan x \<or> is_nan y then NaN
      else if x < y then x
      else if y < x then y
      else if x = NZero then x else y)"

fun Math_sqrt :: "jsnum \<Rightarrow> jsnum" where
  "Math_sqrt NaN = NaN"
| "Math_sqrt PInf = PInf"
| "Math_sqrt NInf = NaN"
| "Math_sqrt NZero = NZero"
| "Math_sqrt (Fin r) = (if r < 0 then NaN else Fin (sqrt r))"

fun Math_exp :: "jsnum \<Rightarrow> jsnum" where
  "Math_exp NaN = NaN"
| "Math_exp PInf = PInf"
| "Math_exp NInf = Fin 0"
| "Math_exp NZero = Fin 1"
| "Math_exp (Fin r) = mk_fin False (exp r)"

text \<open>\<open>ToBoolean\<close> of a Number: the zeros and NaN are falsy.\<close>

definition truthy :: "jsnum \<Rightarrow> bool" where
  "truthy x = (\<not> is_zero x \<and> \<not> is_nan x)"

section \<open>Strings to numbers, sorting\<close>

text \<open>
  \<open>parseFloat\<close> skips leading white space, reads the longest prefix that is a decimal
  literal (an optional sign, then \<open>Infinity\<close> or digits with an optional fraction and an
  optional exponent) and returns NaN when there is none. It never raises. Strings are
  ASCII; the value of the literal is brought into the range of a double as above.
\<close>

definition is_ws :: "char \<Rightarrow> bool" where
  "is_ws c = (c \<in> set [CHR 0x09, CHR 0x0A, CHR 0x0B, CHR 0x0C, CHR 0x0D, CHR '' ''])"

definition is_digit :: "char \<Rightarrow> bool" where
  "is_digit c = (c \<in> set ''0123456789'')"

definition digits_val :: "string \<Rightarrow> nat" where
  "digits_val ds = fold (\<lambda>c n. 10 * n + (of_char c - 48)) ds 0"

text \<open>
  The exponent of \<open>e\<close> or \<open>E\<close>, an optional sign and at least one digit; anything else
  is not part of the literal and counts as exponent 0.
\<close>

definition exponent_part :: "string \<Rightarrow> int" where
  "exponent_part s =
     (case s of
        [] \<Rightarrow> 0
      | c # r \<Rightarrow>
          if c = CHR ''e'' \<or> c = CHR ''E'' then
            (case r of
               [] \<Rightarrow> 0
             | d # r' \<Rightarrow>
                 if d = CHR ''-'' then - int (digits_val (takeWhile is_digit r'))
                 else if d = CHR ''+'' then int (digits_val (takeWhile is_digit r'))
                 else int (digits_val (takeWhile is_digit r)))
          else 0)"

definition pow10 :: "int \<Rightarrow> real" where
  "pow10 e = (if 0 \<le> e then 10 ^ nat e else 1 / 10 ^ nat (- e))"

definition parseFloat :: "string \<Rightarrow> jsnum" where
  "parseFloat s =
     (let t = dropWhile is_ws s;
          neg = (t \<noteq> [] \<and> hd t = CHR ''-'');
          u = (if t \<noteq> [] \<and> (hd t = CHR ''-'' \<or> hd t = CHR ''+'') then tl t else t)
      in if take 8 u = ''Infinity'' then mk_inf neg
         else
           let ip = takeWhile is_digit u;
               r1 = dropWhile is_digit u;
               fp = (case r1 of [] \<Rightarrow> [] | c # r \<Rightarrow> if c = CHR ''.'' then takeWhile is_digit r else []);
               r2 = (case r1 of [] \<Rightarrow> [] | c # r \<Rightarrow> if c = CHR ''.'' then dropWhile is_digit r else r1)
           in if ip = [] \<and> fp = [] then NaN
              else
                let v = real (digits_val (ip @ fp)) * pow10 (exponent_part r2 - int (length fp))
                in mk_fin neg (if neg then - v else v))"

text \<open>
  \<open>Array.prototype.sort\<close> with a comparator: \<open>cmp a b > 0\<close> puts \<open>a\<close> after \<open>b\<close>, any
  other result (negative, a zero, NaN) keeps \<open>a\<close> before \<open>b\<close>. The sort is stable, so
  for a consistent comparator its result is that of the stable insertion sort below. For
  an inconsistent comparator the order of a real engine is implementation-defined.
\<close>

fun insert_by :: "('a \<Rightarrow> 'a \<Rightarrow> jsnum) \<Rightarrow> 'a \<Rightarrow> 'a list \<Rightarrow> 'a list" where
  "insert_by cmp x [] = [x]"
| "insert_by cmp x (y # ys) = (if cmp x y > Fin 0 then y # insert_by cmp x ys else x # y # ys)"

definition Array_sort :: "('a \<Rightarrow> 'a \<Rightarrow> jsnum) \<Rightarrow> 'a list \<Rightarrow> 'a list" where
  "Array_sort cmp xs = foldr (insert_by cmp) xs []"

section \<open>Data model\<close>

text \<open>The inbound message, after \<open>JSON.parse\<close>: prices and quantities are strings.\<close>

record MessageData =
  bids :: "(string \<times> string) list"
  asks :: "(string \<times> string) list"
  timestamp :: jsnum

record WebSocketMessage =
  type :: string
  data :: MessageData

text \<open>A price level is the pair \<open>[price, quantity]\<close>.\<close>

type_synonym level = "jsnum \<times> jsnum"

record OrderbookData =
  bids :: "level list"
  asks :: "level list"
  timestamp :: jsnum

record SimulationParams =
  quantity :: jsnum
  volatility :: jsnum
  feeTier :: string

record TradingMetricsResult =
  slippage :: jsnum
  fees :: jsnum
  marketImpact :: jsnum
  netCost :: jsnum
  makerProportion :: jsnum
  takerProportion :: jsnum
  baseAsset :: string
  quoteAsset :: string
  quantity :: jsnum

datatype side = Buy | Sell

text \<open>
  \<open>xs[i][0]\<close>: an index out of range reads \<open>undefined\<close>, and reading \<open>[0]\<close> of
  \<open>undefined\<close> throws a TypeError. \<open>None\<close> is that exception, the only one the cost
  functions could raise.
\<close>

definition price_at :: "level list \<Rightarrow> nat \<Rightarrow> jsnum option" where
  "price_at xs i = (if i < length xs then Some (fst (xs ! i)) else None)"

section \<open>Cost estimation (tradingModels.ts)\<close>

definition getFeeRate :: "string \<Rightarrow> jsnum" where
  "getFeeRate t =
     (if t = ''tier1'' then Fin 0.001
      else if t = ''tier2'' then Fin 0.0008
      else if t = ''tier3'' then Fin 0.0006
      else if t = ''tier4'' then Fin 0.0004
      else if t = ''tier5'' then Fin 0.0002
      else Fin 0.001)"

text \<open>
  The loop of \<open>calculateSlippage\<close> over the levels of one side, on the pair
  (remainingQuantity, totalCost); it stops at the first level after which
  \<open>remainingQuantity <= 0\<close>.
\<close>

fun walk :: "level list \<Rightarrow> jsnum \<times> jsnum \<Rightarrow> jsnum \<times> jsnum" where
  "walk [] (remainingQuantity, totalCost) = (remainingQuantity, totalCost)"
| "walk ((price, availableQty) # rest) (remainingQuantity, totalCost) =
     (let qtyToExecute = Math_min remainingQuantity availableQty;
          totalCost' = totalCost + qtyToExecute * price;
          remainingQuantity' = remainingQuantity - qtyToExecute
      in if remainingQuantity' \<le> Fin 0 then (remainingQuantity', totalCost')
         else walk rest (remainingQuantity', totalCost'))"

definition calculateSlippage :: "OrderbookData \<Rightarrow> jsnum \<Rightarrow> side \<Rightarrow> jsnum option" where
  "calculateSlippage orderbook qty sd =
     (let orders = (if sd = Buy then asks orderbook else bids orderbook) in
      if length orders = 0 then Some (Fin 0)
      else do {
        midPrice \<leftarrow>
          (if length (bids orderbook) > 0 \<and> length (asks orderbook) > 0
           then do {
             b \<leftarrow> price_at (bids orderbook) 0;
             a \<leftarrow> price_at (asks orderbook) 0;
             Some ((b + a) / Fin 2) }
           else if sd = Buy then price_at (asks orderbook) 0
           else price_at (bids orderbook) 0);
        let (remainingQuantity, totalCost) = walk orders (qty / midPrice, Fin 0);
        totalCost' \<leftarrow>
          (if remainingQuantity > Fin 0
           then do {
             lastPrice \<leftarrow> price_at orders (length orders - 1);
             Some (totalCost + remainingQuantity * lastPrice * Fin 1.05) }
           else Some totalCost);
        let avgExecutionPrice = totalCost' / (qty / midPrice);
        let slippagePercent =
          (if sd = Buy then (avgExecutionPrice - midPrice) / midPrice
           else (midPrice - avgExecutionPrice) / midPrice);
        Some (Math_max slippagePercent (Fin 0)) })"

definition calculateMarketImpact :: "OrderbookData \<Rightarrow> jsnum \<Rightarrow> jsnum \<Rightarrow> jsnum option" where
  "calculateMarketImpact orderbook qty vol =
     (if length (bids orderbook) = 0 \<or> length (asks orderbook) = 0 then Some (Fin 0)
      else do {
        b \<leftarrow> price_at (bids orderbook) 0;
        a \<leftarrow> price_at (asks orderbook) 0;
        let midPrice = (b + a) / Fin 2;
        let spread = a - b;
        let normalizedSpread = spread / midPrice;
        let depthThreshold = midPrice * Fin 0.01;
        let bidDepth =
          foldl (\<lambda>sum (_, q). sum + q) (Fin 0)
            (filter (\<lambda>(price, _). midPrice - price \<le> depthThreshold) (bids orderbook));
        let askDepth =
          foldl (\<lambda>sum (_, q). sum + q) (Fin 0)
            (filter (\<lambda>(price, _). price - midPrice \<le> depthThreshold) (asks orderbook));
        let totalDepth = bidDepth + askDepth;
        let baseQuantity = qty / midPrice;
        let normalizedQuantity = (if totalDepth > Fin 0 then baseQuantity / totalDepth else Fin 0);
        let volatilityFactor = vol / Fin 1000;
        let impactFactor = Math_sqrt (normalizedSpread * volatilityFactor);
        let impact = impactFactor * normalizedQuantity * Math_sqrt normalizedQuantity;
        Some (Math_min (Math_max impact (Fin 0.0001)) (Fin 0.05)) })"

text \<open>The result \<open>{ maker, taker }\<close> is the pair (maker, taker).\<close>

definition calculateMakerTakerProportion :: "OrderbookData \<Rightarrow> jsnum \<Rightarrow> (jsnum \<times> jsnum) option" where
  "calculateMakerTakerProportion orderbook vol =
     (if length (bids orderbook) = 0 \<or> length (asks orderbook) = 0 then Some (Fin 0.5, Fin 0.5)
      else do {
        b \<leftarrow> price_at (bids orderbook) 0;
        a \<leftarrow> price_at (asks orderbook) 0;
        let midPrice = (b + a) / Fin 2;
        let spread = a - b;
        let normalizedSpread = spread / midPrice;
        let volatilityFactor = vol / Fin 100;
        let spreadFactor = Math_min (normalizedSpread * Fin 100) (Fin 1);
        let z = Fin 1.5 - Fin 2 * volatilityFactor + spreadFactor;
        let makerProportion = Fin 1 / (Fin 1 + Math_exp (- z));
        Some (makerProportion, Fin 1 - makerProportion) })"

definition calculateTradingMetrics :: "OrderbookData \<Rightarrow> SimulationParams \<Rightarrow> TradingMetricsResult option" where
  "calculateTradingMetrics orderbook params =
     (let qty = SimulationParams.quantity params;
          vol = volatility params;
          tier = feeTier params
      in do {
        buySlippage \<leftarrow> calculateSlippage orderbook qty Buy;
        sellSlippage \<leftarrow> calculateSlippage orderbook qty Sell;
        let slippage = (buySlippage + sellSlippage) / Fin 2;
        let feeRate = getFeeRate tier;
        let fees = feeRate;
        impact \<leftarrow> calculateMarketImpact orderbook qty vol;
        let netCost = slippage + fees + impact;
        (maker, taker) \<leftarrow> calculateMakerTakerProportion orderbook vol;
        Some \<lparr> slippage = slippage, fees = fees, marketImpact = impact, netCost = netCost,
               makerProportion = maker, takerProportion = taker,
               baseAsset = ''BTC'', quoteAsset = ''USDT'', quantity = qty \<rparr> })"

section \<open>Tick ingestion (useOrderbookData.ts)\<close>

datatype status = Connecting | Connected | Disconnected

text \<open>
  The state of the hook: the React state (\<open>orderbookData\<close>, \<open>connectionStatus\<close>,
  \<open>error\<close>) and the refs. \<open>wsRef\<close> holds the index of a socket of the world below. The
  effect that derives \<open>performanceMetrics\<close> after a render is not modelled.
\<close>

record Hook =
  orderbookData :: OrderbookData
  connectionStatus :: status
  error :: "string option"
  wsRef :: "nat option"
  tickStartTimeRef :: jsnum
  processingStartTimeRef :: jsnum
  processingEndTimeRef :: jsnum
  renderStartTimeRef :: jsnum

text \<open>
  \<open>processWebSocketMessage\<close>. \<open>now\<close> is the reading of \<open>performance.now()\<close>, \<open>dateNow\<close>
  that of \<open>Date.now()\<close>; one handler run reads one instant.
\<close>

definition processWebSocketMessage :: "jsnum \<Rightarrow> jsnum \<Rightarrow> WebSocketMessage \<Rightarrow> Hook \<Rightarrow> Hook" where
  "processWebSocketMessage now dateNow message h =
     (let h1 = h\<lparr> processingStartTimeRef := now \<rparr> in
      if type message = ''snapshot'' \<or> type message = ''update'' then
        let bids0 = map (\<lambda>(price, qty). (parseFloat price, parseFloat qty))
                      (MessageData.bids (data message));
            asks0 = map (\<lambda>(price, qty). (parseFloat price, parseFloat qty))
                      (MessageData.asks (data message));
            bids1 = Array_sort (\<lambda>a b. fst b - fst a) bids0;
            asks1 = Array_sort (\<lambda>a b. fst a - fst b) asks0;
            newData = \<lparr> bids = bids1, asks = asks1,
                        timestamp = (if truthy (MessageData.timestamp (data message))
                                     then MessageData.timestamp (data message) else dateNow) \<rparr>
        in h1\<lparr> processingEndTimeRef := now, renderStartTimeRef := now, orderbookData := newData \<rparr>
      else h1)"

text \<open>
  The world around the hook: every socket created so far with its \<open>readyState\<close>, the
  pending \<open>setTimeout\<close> deadlines, a clock in milliseconds, and the socket \<open>ws\<close> that
  the closure of the running connection effect holds (\<open>None\<close> when no effect is active).
\<close>

datatype readyState = CONNECTING | OPEN | CLOSING | CLOSED

record World =
  hook :: Hook
  sockets :: "readyState list"
  timers :: "nat list"
  clock :: nat
  timeOrigin :: nat
  effect :: "nat option"

definition performance_now :: "World \<Rightarrow> jsnum" where
  "performance_now w = Fin (real (clock w))"

definition Date_now :: "World \<Rightarrow> jsnum" where
  "Date_now w = Fin (real (timeOrigin w + clock w))"

definition connectWebSocket :: "World \<Rightarrow> World" where
  "connectWebSocket w =
     w\<lparr> hook := (hook w)\<lparr> connectionStatus := Connecting, error := None,
                            wsRef := Some (length (sockets w)) \<rparr>,
        sockets := sockets w @ [CONNECTING] \<rparr>"

definition onopen :: "World \<Rightarrow> World" where
  "onopen w = w\<lparr> hook := (hook w)\<lparr> connectionStatus := Connected \<rparr> \<rparr>"

text \<open>
  \<open>ws.onmessage\<close>. \<open>JSON_parse\<close> is the parser, \<open>None\<close> where it throws. A parsed
  message has the declared shape of \<open>WebSocketMessage\<close>, so nothing after the parse
  throws and the \<open>catch\<close> branch is that of a syntax error.
\<close>

definition onmessage :: "(string \<Rightarrow> WebSocketMessage option) \<Rightarrow> string \<Rightarrow> World \<Rightarrow> World" where
  "onmessage JSON_parse event_data w =
     (let h = (hook w)\<lparr> tickStartTimeRef := performance_now w \<rparr> in
      case JSON_parse event_data of
        Some message \<Rightarrow>
          w\<lparr> hook := processWebSocketMessage (performance_now w) (Date_now w) message h \<rparr>
      | None \<Rightarrow> w\<lparr> hook := h\<lparr> error := Some ''Failed to parse WebSocket message'' \<rparr> \<rparr>)"

definition onerror :: "World \<Rightarrow> World" where
  "onerror w =
     w\<lparr> hook := (hook w)\<lparr> error := Some ''WebSocket connection error'',
                            connectionStatus := Disconnected \<rparr> \<rparr>"

text \<open>\<open>ws.onclose\<close> schedules the reconnect callback 5000 ms from now.\<close>

definition onclose :: "World \<Rightarrow> World" where
  "onclose w =
     w\<lparr> hook := (hook w)\<lparr> connectionStatus := Disconnected \<rparr>,
        timers := timers w @ [clock w + 5000] \<rparr>"

text \<open>The callback given to \<open>setTimeout\<close>.\<close>

definition reconnect :: "World \<Rightarrow> World" where
  "reconnect w =
     (case wsRef (hook w) of
        Some i \<Rightarrow> if i < length (sockets w) \<and> sockets w ! i = CLOSED then connectWebSocket w else w
      | None \<Rightarrow> w)"

text \<open>
  The body of the connection effect: \<open>const ws = connectWebSocket()\<close>.
\<close>

definition run_effect :: "World \<Rightarrow> World" where
  "run_effect w = (connectWebSocket w)\<lparr> effect := Some (length (sockets w)) \<rparr>"

text \<open>
  The clean-up function of the effect: \<open>ws.close()\<close> when \<open>ws\<close> is open or connecting,
  which moves the socket to \<open>CLOSING\<close>; its close event comes later. The pending timers
  are left as they are.
\<close>

definition cleanup :: "World \<Rightarrow> World" where
  "cleanup w =
     (case effect w of
        None \<Rightarrow> w
      | Some i \<Rightarrow>
          (if i < length (sockets w) \<and> (sockets w ! i = OPEN \<or> sockets w ! i = CONNECTING)
           then w\<lparr> sockets := (sockets w)[i := CLOSING], effect := None \<rparr>
           else w\<lparr> effect := None \<rparr>))"

text \<open>
  What can happen to the hook. Time passes; a connecting socket opens; an open socket
  delivers a message; a socket that is not closed yet closes, cleanly (\<open>SocketClose\<close>:
  the close event) or by failure (\<open>SocketFail\<close>: the error event, then the close
  event); a timer whose deadline has been reached runs its callback; React runs the
  clean-up of the active effect (\<open>EffectCleanup\<close>: on unmount, or before a re-run as in
  strict mode) or runs the effect again (\<open>EffectRun\<close>). An event that cannot happen in
  the state gives \<open>None\<close>.
\<close>

datatype event =
    Tick nat
  | SocketOpen nat
  | SocketMessage nat string
  | SocketClose nat
  | SocketFail nat
  | TimerExpired nat
  | EffectCleanup
  | EffectRun

fun step :: "(string \<Rightarrow> WebSocketMessage option) \<Rightarrow> event \<Rightarrow> World \<Rightarrow> World option" where
  "step P (Tick n) w = Some (w\<lparr> clock := clock w + n \<rparr>)"
| "step P (SocketOpen i) w =
     (if i < length (sockets w) \<and> sockets w ! i = CONNECTING
      then Some (onopen (w\<lparr> sockets := (sockets w)[i := OPEN] \<rparr>)) else None)"
| "step P (SocketMessage i d) w =
     (if i < length (sockets w) \<and> sockets w ! i = OPEN
      then Some (onmessage P d w) else None)"
| "step P (SocketClose i) w =
     (if i < length (sockets w) \<and> sockets w ! i \<noteq> CLOSED
      then Some (onclose (w\<lparr> sockets := (sockets w)[i := CLOSED] \<rparr>)) else None)"
| "step P (SocketFail i) w =
     (if i < length (sockets w) \<and> sockets w ! i \<noteq> CLOSED
      then Some (onclose (onerror (w\<lparr> sockets := (sockets w)[i := CLOSED] \<rparr>))) else None)"
| "step P (TimerExpired k) w =
     (if k < length (timers w) \<and> timers w ! k \<le> clock w
      then Some (reconnect (w\<lparr> timers := take k (timers w) @ drop (Suc k) (timers w) \<rparr>))
      else None)"
| "step P EffectCleanup w = (if effect w \<noteq> None then Some (cleanup w) else None)"
| "step P EffectRun w = (if effect w = None then Some (run_effect w) else None)"

fun run :: "(string \<Rightarrow> WebSocketMessage option) \<Rightarrow> event list \<Rightarrow> World \<Rightarrow> World option" where
  "run P [] w = Some w"
| "run P (e # es) w = (case step P e w of None \<Rightarrow> None | Some w' \<Rightarrow> run P es w')"

text \<open>
  Mounting: the initial React state, then the first run of the effect.
\<close>

definition mount :: "nat \<Rightarrow> World" where
  "mount origin =
     run_effect
       \<lparr> hook = \<lparr> orderbookData = \<lparr> bids = [], asks = [], timestamp = Fin (real origin) \<rparr>,
                  connectionStatus = Disconnected, error = None, wsRef = None,
                  tickStartTimeRef = Fin 0, processingStartTimeRef = Fin 0,
                  processingEndTimeRef = Fin 0, renderStartTimeRef = Fin 0 \<rparr>,
         sockets = [], timers = [], clock = 0, timeOrigin = origin, effect = None \<rparr>"

section \<open>Properties and scenarios\<close>

text \<open>
  The comparison of the specification, "equal within 1e-9":
  \<open>Math.abs(x - y) <= 1e-9\<close>. It is false when either side is NaN.
\<close>

fun Math_abs :: "jsnum \<Rightarrow> jsnum" where
  "Math_abs NaN = NaN"
| "Math_abs PInf = PInf"
| "Math_abs NInf = PInf"
| "Math_abs NZero = Fin 0"
| "Math_abs (Fin r) = Fin \<bar>r\<bar>"

definition within_tolerance :: "jsnum \<Rightarrow> jsnum \<Rightarrow> bool" where
  "within_tolerance x y = (Math_abs (x - y) \<le> Fin (1 / 10 ^ 9))"

text \<open>A one-level book, best bid 100 and best ask 102, one unit on each side.\<close>

definition book1 :: OrderbookData where
  "book1 = \<lparr> bids = [(Fin 100, Fin 1)], asks = [(Fin 102, Fin 1)], timestamp = Fin 1 \<rparr>"

text \<open>The parameters the quantity field accepts when the user enters 0.\<close>

definition zero_quantity :: SimulationParams where
  "zero_quantity = \<lparr> SimulationParams.quantity = Fin 0, volatility = Fin 50, feeTier = ''tier1'' \<rparr>"

text \<open>
  A book with one unit bid at 100 and a deep ask side at 102; orders of two units and of
  one unit at mid price 101.
\<close>

definition book2 :: OrderbookData where
  "book2 = \<lparr> bids = [(Fin 100, Fin 1)], asks = [(Fin 102, Fin 1000)], timestamp = Fin 1 \<rparr>"

definition two_units :: SimulationParams where
  "two_units = \<lparr> SimulationParams.quantity = Fin 202, volatility = Fin 0, feeTier = ''tier1'' \<rparr>"

definition one_unit :: SimulationParams where
  "one_unit = \<lparr> SimulationParams.quantity = Fin 101, volatility = Fin 0, feeTier = ''tier1'' \<rparr>"

text \<open>The interval of the clamp at the end of \<open>calculateMarketImpact\<close>.\<close>

definition in_range :: "jsnum \<Rightarrow> bool" where
  "in_range r = (Fin 0.0001 \<le> r \<and> r \<le> Fin 0.05)"

text \<open>A crossed book: the best bid 200 is above the best ask 100.\<close>

definition crossed_book :: OrderbookData where
  "crossed_book = \<lparr> bids = [(Fin 200, Fin 1)], asks = [(Fin 100, Fin 1)], timestamp = Fin 1 \<rparr>"

text \<open>
  Messages: a tick with one level per side, a tick whose bid price is not a number, and a
  tick that names the bid price 100 twice; a parser that knows them by name and throws
  on everything else.
\<close>

definition good_tick :: WebSocketMessage where
  "good_tick =
     \<lparr> type = ''snapshot'',
       data = \<lparr> MessageData.bids = [(''100'', ''1'')], MessageData.asks = [(''102'', ''1'')],
                MessageData.timestamp = Fin 6 \<rparr> \<rparr>"

definition malformed_tick :: WebSocketMessage where
  "malformed_tick =
     \<lparr> type = ''update'',
       data = \<lparr> MessageData.bids = [(''abc'', ''1'')], MessageData.asks = [],
                MessageData.timestamp = Fin 7 \<rparr> \<rparr>"

definition duplicate_tick :: WebSocketMessage where
  "duplicate_tick =
     \<lparr> type = ''snapshot'',
       data = \<lparr> MessageData.bids = [(''100'', ''1''), (''100'', ''2'')],
                MessageData.asks = [(''101'', ''1'')], MessageData.timestamp = Fin 5 \<rparr> \<rparr>"

definition parse_example :: "string \<Rightarrow> WebSocketMessage option" where
  "parse_example s =
     (if s = ''good'' then Some good_tick
      else if s = ''malformed'' then Some malformed_tick
      else if s = ''duplicate'' then Some duplicate_tick
      else None)"



text \<open>The events of a hook whose effect is neither cleaned up nor run again.\<close>

fun socket_or_timer :: "event \<Rightarrow> bool" where
  "socket_or_timer EffectCleanup = False"
| "socket_or_timer EffectRun = False"
| "socket_or_timer _ = True"

text \<open>
  Invariant of the reconnect loop while the effect has run once: only the newest socket
  can be other than closed, and a reconnect timer is pending only while every socket is
  closed, and then it is alone.
\<close>

definition loop_inv :: "World \<Rightarrow> bool" where
  "loop_inv w =
     (list_all (\<lambda>s. s = CLOSED) (butlast (sockets w)) \<and>
      (timers w = [] \<or> (length (timers w) = 1 \<and> list_all (\<lambda>s. s = CLOSED) (sockets w))))"

text \<open>
  After a close at time \<open>t\<close>: until the clock reaches \<open>t + 5000\<close> the status is not
  \<open>connecting\<close>, every socket is closed and the pending timer is due at \<open>t + 5000\<close> or
  later.
\<close>

definition waiting :: "nat \<Rightarrow> World \<Rightarrow> bool" where
  "waiting t w =
     (loop_inv w \<and>
      (t + 5000 \<le> clock w \<or>
       (connectionStatus (hook w) \<noteq> Connecting \<and> list_all (\<lambda>s. s = CLOSED) (sockets w) \<and>
        list_all (\<lambda>d. t + 5000 \<le> d) (timers w))))"

section \<open>Arithmetic of the Number model\<close>

lemma bounds: "2 ^ 64 < overflow_bound" "underflow_bound < 1 / 2 ^ 64"
  by (simp_all add: overflow_bound_def underflow_bound_def)

lemma mk_sum_range [simp]: "\<bar>r\<bar> \<le> 2 ^ 64 \<Longrightarrow> mk_sum r = Fin r"
  using bounds(1) by (simp add: mk_sum_def)

lemma mk_fin_range [simp]: "1 / 2 ^ 64 \<le> \<bar>r\<bar> \<Longrightarrow> \<bar>r\<bar> \<le> 2 ^ 64 \<Longrightarrow> mk_fin s r = Fin r"
  using bounds by (simp add: mk_fin_def)

lemma mk_fin_zero [simp]: "mk_fin s 0 = mk_zero s"
  using bounds(1) by (simp add: mk_fin_def underflow_bound_def)

lemma add_Fin [simp]: "Fin a + Fin b = mk_sum (a + b)"
  by (simp add: plus_jsnum_def js_add_def)

lemma sub_Fin [simp]: "Fin a - Fin b = mk_sum (a - b)"
  by (simp add: minus_jsnum_def js_sub_def js_add_def)

lemma neg_Fin [simp]: "- Fin a = (if a = 0 then NZero else Fin (- a))"
  by (simp add: uminus_jsnum_def)

lemma mul_Fin [simp]: "Fin a * Fin b = mk_fin ((a < 0) \<noteq> (b < 0)) (a * b)"
  by (simp add: times_jsnum_def js_mul_def)

lemma div_Fin [simp]:
  "Fin a / Fin b =
     (if b = 0 then (if a = 0 then NaN else mk_inf (a < 0))
      else mk_fin ((a < 0) \<noteq> (b < 0)) (a / b))"
  by (simp add: divide_jsnum_def js_div_def)

lemma lt_Fin [simp]: "(Fin a < Fin b) = (a < b)"
  by (simp add: less_jsnum_def)

lemma le_Fin [simp]: "(Fin a \<le> Fin b) = (a \<le> b)"
  by (auto simp add: less_eq_jsnum_def js_le_def)

lemma max_Fin [simp]: "Math_max (Fin a) (Fin b) = Fin (max a b)"
  by (auto simp add: Math_max_def)

lemma min_Fin [simp]: "Math_min (Fin a) (Fin b) = Fin (min a b)"
  by (auto simp add: Math_min_def)

lemma mk_zero_simps [simp]: "mk_zero False = Fin 0" "mk_zero True = NZero"
  by (simp_all add: mk_zero_def)

lemma mk_inf_simps [simp]: "mk_inf False = PInf" "mk_inf True = NInf"
  by (simp_all add: mk_inf_def)

lemma NaN_add [simp]: "NaN + x = NaN" "x + NaN = NaN"
  by (simp_all add: plus_jsnum_def js_add_def)

lemma NaN_sub [simp]: "NaN - x = NaN" "x - NaN = NaN"
  by (simp_all add: minus_jsnum_def js_sub_def js_add_def)

lemma NaN_mul [simp]: "NaN * x = NaN" "x * NaN = NaN"
  by (simp_all add: times_jsnum_def js_mul_def)

lemma NaN_div [simp]: "NaN / x = NaN" "x / NaN = NaN"
  by (simp_all add: divide_jsnum_def js_div_def)

lemma NaN_max [simp]: "Math_max NaN x = NaN" "Math_max x NaN = NaN"
  by (simp_all add: Math_max_def)

lemma NaN_min [simp]: "Math_min NaN x = NaN" "Math_min x NaN = NaN"
  by (simp_all add: Math_min_def)

lemma NaN_cmp [simp]: "\<not> NaN < x" "\<not> x < NaN" "\<not> NaN \<le> x" "\<not> x \<le> NaN"
  by (cases x; simp add: less_jsnum_def less_eq_jsnum_def js_le_def)+

section \<open>The cost functions never raise\<close>

lemma price_at_0 [simp]: "price_at (x # xs) 0 = Some (fst x)"
  by (simp add: price_at_def)

lemma price_at_last: "xs \<noteq> [] \<Longrightarrow> price_at xs (length xs - 1) = Some (fst (last xs))"
  by (simp add: price_at_def last_conv_nth)

lemma calculateSlippage_total: "\<exists>x. calculateSlippage ob q sd = Some x"
proof (cases "(if sd = Buy then asks ob else bids ob) = []")
  case True
  then show ?thesis by (simp add: calculateSlippage_def)
next
  case False
  then obtain o1 os where os: "(if sd = Buy then asks ob else bids ob) = o1 # os"
    by (cases "if sd = Buy then asks ob else bids ob") auto
  have mid: "\<exists>m. (if length (bids ob) > 0 \<and> length (asks ob) > 0
           then do {
             b \<leftarrow> price_at (bids ob) 0;
             a \<leftarrow> price_at (asks ob) 0;
             Some ((b + a) / Fin 2) }
           else if sd = Buy then price_at (asks ob) 0
           else price_at (bids ob) 0) = Some m"
    using os by (cases "bids ob"; cases "asks ob"; cases sd) (auto split: if_splits)
  then obtain m where m: "(if length (bids ob) > 0 \<and> length (asks ob) > 0
           then do {
             b \<leftarrow> price_at (bids ob) 0;
             a \<leftarrow> price_at (asks ob) 0;
             Some ((b + a) / Fin 2) }
           else if sd = Buy then price_at (asks ob) 0
           else price_at (bids ob) 0) = Some m" ..
  have lst: "price_at (o1 # os) (length os) = Some (fst (last (o1 # os)))"
    using price_at_last [of "o1 # os"] by simp
  show ?thesis
    unfolding calculateSlippage_def Let_def os m
    by (simp add: lst split: prod.split)
qed

lemma calculateMarketImpact_total: "\<exists>x. calculateMarketImpact ob q v = Some x"
  by (cases "bids ob"; cases "asks ob") (simp_all add: calculateMarketImpact_def Let_def)

lemma calculateMakerTakerProportion_total: "\<exists>x. calculateMakerTakerProportion ob v = Some x"
  by (cases "bids ob"; cases "asks ob") (simp_all add: calculateMakerTakerProportion_def Let_def)

lemma calculateTradingMetrics_fees:
  "\<exists>r. calculateTradingMetrics ob p = Some r \<and> fees r = getFeeRate (feeTier p)"
proof -
  obtain b where b: "calculateSlippage ob (SimulationParams.quantity p) Buy = Some b"
    using calculateSlippage_total by blast
  obtain s where s: "calculateSlippage ob (SimulationParams.quantity p) Sell = Some s"
    using calculateSlippage_total by blast
  obtain i where i: "calculateMarketImpact ob (SimulationParams.quantity p) (volatility p) = Some i"
    using calculateMarketImpact_total by blast
  obtain mt where mt: "calculateMakerTakerProportion ob (volatility p) = Some mt"
    using calculateMakerTakerProportion_total by blast
  show ?thesis
    by (cases mt) (simp add: calculateTradingMetrics_def Let_def b s i mt)
qed

section \<open>Fees\<close>

text \<open>
  Claim C8. \<open>getFeeRate\<close> maps tier1 to tier5 to the rates 0.001, 0.0008, 0.0006, 0.0004
  and 0.0002, each strictly below the one before; every other tier string gets the
  tier1 rate 0.001 and nothing fails; and for the tier \<open>tier1\<close> \<open>calculateTradingMetrics\<close>
  returns a result whose \<open>fees\<close> field is 0.001, whatever the snapshot, the quantity
  and the volatility are.
\<close>

theorem getFeeRate_tiers:
  "getFeeRate ''tier1'' = Fin 0.001 \<and> getFeeRate ''tier2'' = Fin 0.0008 \<and>
   getFeeRate ''tier3'' = Fin 0.0006 \<and> getFeeRate ''tier4'' = Fin 0.0004 \<and>
   getFeeRate ''tier5'' = Fin 0.0002 \<and>
   getFeeRate ''tier2'' < getFeeRate ''tier1'' \<and> getFeeRate ''tier3'' < getFeeRate ''tier2'' \<and>
   getFeeRate ''tier4'' < getFeeRate ''tier3'' \<and> getFeeRate ''tier5'' < getFeeRate ''tier4'' \<and>
   (t \<notin> {''tier1'', ''tier2'', ''tier3'', ''tier4'', ''tier5''} \<longrightarrow> getFeeRate t = Fin 0.001) \<and>
   (\<exists>r. calculateTradingMetrics ob \<lparr> SimulationParams.quantity = q, volatility = v, feeTier = ''tier1'' \<rparr> = Some r
        \<and> fees r = Fin 0.001)"
proof -
  have tiers: "getFeeRate ''tier1'' = Fin 0.001" "getFeeRate ''tier2'' = Fin 0.0008"
    "getFeeRate ''tier3'' = Fin 0.0006" "getFeeRate ''tier4'' = Fin 0.0004"
    "getFeeRate ''tier5'' = Fin 0.0002"
    by (simp_all add: getFeeRate_def)
  have dflt: "t \<notin> {''tier1'', ''tier2'', ''tier3'', ''tier4'', ''tier5''} \<longrightarrow> getFeeRate t = Fin 0.001"
    by (simp add: getFeeRate_def)
  have "\<exists>r. calculateTradingMetrics ob \<lparr> SimulationParams.quantity = q, volatility = v, feeTier = ''tier1'' \<rparr> = Some r
        \<and> fees r = getFeeRate ''tier1''"
    using calculateTradingMetrics_fees [of ob "\<lparr> SimulationParams.quantity = q, volatility = v, feeTier = ''tier1'' \<rparr>"]
    by simp
  then have run: "\<exists>r. calculateTradingMetrics ob \<lparr> SimulationParams.quantity = q, volatility = v, feeTier = ''tier1'' \<rparr> = Some r
        \<and> fees r = Fin 0.001"
    by (simp only: tiers)
  show ?thesis
    using dflt run by (simp add: tiers)
qed

text \<open>The fallback at the unknown tier \<open>gold\<close>.\<close>

theorem getFeeRate_tiers_witness:
  "''gold'' \<notin> {''tier1'', ''tier2'', ''tier3'', ''tier4'', ''tier5''} \<and> getFeeRate ''gold'' = Fin 0.001"
  using getFeeRate_tiers [of "''gold''"] by simp

section \<open>Empty sides of the book\<close>

text \<open>
  Claim C10. When the side to be walked (asks for a buy, bids for a sell) is empty,
  \<open>calculateSlippage\<close> returns exactly 0, for every quantity; and when both sides are
  empty the reported slippage is 0 and \<open>netCost\<close> is the fee rate alone.
\<close>

theorem calculateSlippage_empty_side:
  "((if sd = Buy then asks ob else bids ob) = [] \<longrightarrow> calculateSlippage ob q sd = Some (Fin 0)) \<and>
   (bids ob = [] \<and> asks ob = [] \<longrightarrow>
      (\<exists>r. calculateTradingMetrics ob p = Some r \<and> slippage r = Fin 0 \<and>
           netCost r = getFeeRate (feeTier p)))"
proof -
  have "getFeeRate (feeTier p) = Fin (val (getFeeRate (feeTier p)))"
    by (simp add: getFeeRate_def)
  moreover have "\<bar>val (getFeeRate (feeTier p))\<bar> \<le> 1"
    by (simp add: getFeeRate_def)
  ultimately have fee: "\<exists>f. getFeeRate (feeTier p) = Fin f \<and> \<bar>f\<bar> \<le> 1"
    by blast
  have "bids ob = [] \<and> asks ob = [] \<longrightarrow>
      (\<exists>r. calculateTradingMetrics ob p = Some r \<and> slippage r = Fin 0 \<and>
           netCost r = getFeeRate (feeTier p))"
    using fee
    by (auto simp add: calculateTradingMetrics_def calculateSlippage_def calculateMarketImpact_def
        calculateMakerTakerProportion_def Let_def)
  then show ?thesis
    by (simp add: calculateSlippage_def)
qed

text \<open>A buy against a book without asks, and the metrics of the empty book at tier3.\<close>

theorem calculateSlippage_empty_side_witness:
  "calculateSlippage \<lparr> bids = [(Fin 100, Fin 1)], asks = [], timestamp = Fin 1 \<rparr> (Fin 50) Buy = Some (Fin 0) \<and>
   (\<exists>r. calculateTradingMetrics \<lparr> bids = [], asks = [], timestamp = Fin 1 \<rparr>
          \<lparr> SimulationParams.quantity = Fin 50, volatility = Fin 50, feeTier = ''tier3'' \<rparr> = Some r \<and>
        slippage r = Fin 0 \<and> netCost r = Fin 0.0006)"
  using calculateSlippage_empty_side [of Buy "\<lparr> bids = [(Fin 100, Fin 1)], asks = [], timestamp = Fin 1 \<rparr>" "Fin 50"]
    calculateSlippage_empty_side [of Buy "\<lparr> bids = [], asks = [], timestamp = Fin 1 \<rparr>" "Fin 50"
      "\<lparr> SimulationParams.quantity = Fin 50, volatility = Fin 50, feeTier = ''tier3'' \<rparr>"]
  by (simp add: getFeeRate_def)

text \<open>
  Claim C6. For a snapshot with empty bids, empty asks or both, no cost function raises:
  \<open>calculateMarketImpact\<close> returns 0, \<open>calculateMakerTakerProportion\<close> returns the split
  0.5 / 0.5, \<open>calculateSlippage\<close> returns a number, and \<open>calculateTradingMetrics\<close>
  returns a result carrying these fallback values.
\<close>

theorem empty_book_fallbacks:
  assumes "bids ob = [] \<or> asks ob = []"
  shows "calculateMarketImpact ob q v = Some (Fin 0) \<and>
         calculateMakerTakerProportion ob v = Some (Fin 0.5, Fin 0.5) \<and>
         (\<exists>x. calculateSlippage ob q sd = Some x) \<and>
         (\<exists>r. calculateTradingMetrics ob \<lparr> SimulationParams.quantity = q, volatility = v, feeTier = t \<rparr> = Some r \<and>
              marketImpact r = Fin 0 \<and> makerProportion r = Fin 0.5 \<and> takerProportion r = Fin 0.5)"
proof -
  have i: "calculateMarketImpact ob q v = Some (Fin 0)"
    using assms by (auto simp add: calculateMarketImpact_def)
  have m: "calculateMakerTakerProportion ob v = Some (Fin 0.5, Fin 0.5)"
    using assms by (auto simp add: calculateMakerTakerProportion_def)
  obtain b where b: "calculateSlippage ob q Buy = Some b"
    using calculateSlippage_total by blast
  obtain s where s: "calculateSlippage ob q Sell = Some s"
    using calculateSlippage_total by blast
  have r: "\<exists>r. calculateTradingMetrics ob \<lparr> SimulationParams.quantity = q, volatility = v, feeTier = t \<rparr> = Some r \<and>
              marketImpact r = Fin 0 \<and> makerProportion r = Fin 0.5 \<and> takerProportion r = Fin 0.5"
    by (simp add: calculateTradingMetrics_def Let_def b s i m)
  show ?thesis
    using i m r calculateSlippage_total [of ob q sd] by blast
qed

text \<open>A book without bids.\<close>

theorem empty_book_fallbacks_witness:
  "calculateMarketImpact \<lparr> bids = [], asks = [(Fin 102, Fin 1)], timestamp = Fin 1 \<rparr> (Fin 100) (Fin 50) = Some (Fin 0) \<and>
   calculateMakerTakerProportion \<lparr> bids = [], asks = [(Fin 102, Fin 1)], timestamp = Fin 1 \<rparr> (Fin 50) = Some (Fin 0.5, Fin 0.5) \<and>
   (\<exists>x. calculateSlippage \<lparr> bids = [], asks = [(Fin 102, Fin 1)], timestamp = Fin 1 \<rparr> (Fin 100) Buy = Some x)"
  using empty_book_fallbacks [of "\<lparr> bids = [], asks = [(Fin 102, Fin 1)], timestamp = Fin 1 \<rparr>" "Fin 100" "Fin 50" Buy]
  by simp

section \<open>Quantity zero\<close>

lemma slippage_zero_quantity:
  "calculateSlippage book1 (Fin 0) Buy = Some NaN" "calculateSlippage book1 (Fin 0) Sell = Some NaN"
  by (simp_all add: calculateSlippage_def book1_def Let_def)

lemma impact_zero_quantity: "calculateMarketImpact book1 (Fin 0) (Fin 50) = Some (Fin 0.0001)"
  by (simp add: calculateMarketImpact_def book1_def Let_def)

text \<open>
  Claim C7 (evaluation at the failing input). On the book \<open>book1\<close> with quantity 0 the
  base quantity is \<open>0 / 101 = 0\<close>, the loop executes nothing, and the average execution
  price is \<open>0 / 0\<close>: the slippage of both sides is NaN, and so are the \<open>slippage\<close> and
  \<open>netCost\<close> fields of the result, which are not finite numbers.
\<close>

theorem zero_quantity_not_finite:
  "\<exists>r. calculateTradingMetrics book1 zero_quantity = Some r \<and> slippage r = NaN \<and> netCost r = NaN \<and>
       \<not> isFinite (slippage r) \<and> \<not> isFinite (netCost r)"
proof -
  obtain mt where mt: "calculateMakerTakerProportion book1 (Fin 50) = Some mt"
    using calculateMakerTakerProportion_total by blast
  show ?thesis
    by (cases mt)
      (simp add: calculateTradingMetrics_def zero_quantity_def Let_def slippage_zero_quantity
        impact_zero_quantity mt)
qed

section \<open>Net cost\<close>

text \<open>
  Claim C1 (evaluation at the failing input). With quantity 0 on \<open>book1\<close> the slippage is
  the NaN of \<open>0 / 0\<close>, so \<open>netCost\<close> is NaN, and the comparison of \<open>netCost\<close> with
  \<open>slippage + fees + marketImpact\<close> within 1e-9 is false.
\<close>

theorem netCost_NaN_at_zero_quantity:
  "(\<exists>r. calculateTradingMetrics book1 zero_quantity = Some r \<and> netCost r = NaN \<and>
        slippage r + fees r + marketImpact r = NaN) \<and>
   \<not> within_tolerance NaN NaN \<and>
   \<not> (\<exists>r. calculateTradingMetrics book1 zero_quantity = Some r \<and>
          within_tolerance (netCost r) (slippage r + fees r + marketImpact r))"
proof -
  obtain mt where mt: "calculateMakerTakerProportion book1 (Fin 50) = Some mt"
    using calculateMakerTakerProportion_total by blast
  show ?thesis
    by (cases mt)
      (simp add: calculateTradingMetrics_def zero_quantity_def Let_def slippage_zero_quantity
        impact_zero_quantity mt within_tolerance_def)
qed

text \<open>
  The sum itself is computed as the claim says: \<open>netCost\<close> is the very Number
  \<open>slippage + fees + marketImpact\<close>, and where it is finite the comparison holds.
\<close>

lemma within_tolerance_refl: "isFinite x \<Longrightarrow> within_tolerance x x"
  by (cases x) (simp_all add: within_tolerance_def minus_jsnum_def js_sub_def js_add_def
      less_eq_jsnum_def js_le_def)

lemma netCost_is_sum:
  "\<exists>r. calculateTradingMetrics ob p = Some r \<and>
       netCost r = slippage r + fees r + marketImpact r \<and>
       (isFinite (netCost r) \<longrightarrow> within_tolerance (netCost r) (slippage r + fees r + marketImpact r))"
proof -
  obtain b where b: "calculateSlippage ob (SimulationParams.quantity p) Buy = Some b"
    using calculateSlippage_total by blast
  obtain s where s: "calculateSlippage ob (SimulationParams.quantity p) Sell = Some s"
    using calculateSlippage_total by blast
  obtain i where i: "calculateMarketImpact ob (SimulationParams.quantity p) (volatility p) = Some i"
    using calculateMarketImpact_total by blast
  obtain mt where mt: "calculateMakerTakerProportion ob (volatility p) = Some mt"
    using calculateMakerTakerProportion_total by blast
  show ?thesis
    by (cases mt) (simp add: calculateTradingMetrics_def Let_def b s i mt within_tolerance_refl)
qed

section \<open>The liquidity fallback\<close>

lemma book2_sell:
  "calculateSlippage book2 (Fin 202) Sell = Some (Fin 0)"
  "calculateSlippage book2 (Fin 101) Sell = Some (Fin (1 / 101))"
  by (simp_all add: calculateSlippage_def book2_def Let_def)

lemma book2_buy:
  "calculateSlippage book2 (Fin 202) Buy = Some (Fin (1 / 101))"
  "calculateSlippage book2 (Fin 101) Buy = Some (Fin (1 / 101))"
  by (simp_all add: calculateSlippage_def book2_def Let_def)

lemma book2_impact:
  "calculateMarketImpact book2 (Fin 202) (Fin 0) = Some (Fin 0.0001)"
  "calculateMarketImpact book2 (Fin 101) (Fin 0) = Some (Fin 0.0001)"
  by (simp_all add: calculateMarketImpact_def book2_def Let_def)

text \<open>
  Claim C3 (evaluation at the failing input). On \<open>book2\<close> a sell of two units exceeds the
  bid depth of one unit: the loop leaves one unit unfilled and the fallback prices it at
  \<open>100 * 1.05\<close>, above the mid price, so the average price is 102.5 and the sell-side
  slippage is clamped to 0, below the 1/101 of a one-unit sell that fills at the best
  bid. The reported slippage (the mean of both sides) drops from 1/101 to 1/202.
\<close>

theorem sell_fallback_lowers_slippage:
  "Fin 0 < fst (walk (bids book2) (Fin 202 / Fin 101, Fin 0)) \<and>
   calculateSlippage book2 (Fin 202) Sell = Some (Fin 0) \<and>
   calculateSlippage book2 (Fin 101) Sell = Some (Fin (1 / 101)) \<and>
   (\<exists>r1 r2. calculateTradingMetrics book2 two_units = Some r1 \<and>
            calculateTradingMetrics book2 one_unit = Some r2 \<and>
            slippage r1 = Fin (1 / 202) \<and> slippage r2 = Fin (1 / 101) \<and>
            slippage r1 < slippage r2)"
proof -
  obtain mt where mt: "calculateMakerTakerProportion book2 (Fin 0) = Some mt"
    using calculateMakerTakerProportion_total by blast
  have "\<exists>r1 r2. calculateTradingMetrics book2 two_units = Some r1 \<and>
            calculateTradingMetrics book2 one_unit = Some r2 \<and>
            slippage r1 = Fin (1 / 202) \<and> slippage r2 = Fin (1 / 101) \<and>
            slippage r1 < slippage r2"
    by (cases mt)
      (simp add: calculateTradingMetrics_def two_units_def one_unit_def Let_def book2_sell
        book2_buy book2_impact mt)
  moreover have "Fin 0 < fst (walk (bids book2) (Fin 202 / Fin 101, Fin 0))"
    by (simp add: book2_def Let_def)
  ultimately show ?thesis
    using book2_sell by blast
qed

section \<open>Market impact\<close>

text \<open>The clamp bounds every number, and lets NaN through.\<close>

lemma clamp_range:
  "\<not> is_nan x \<Longrightarrow> in_range (Math_min (Math_max x (Fin 0.0001)) (Fin 0.05))"
  by (cases x) (auto simp add: in_range_def Math_max_def Math_min_def less_jsnum_def
      less_eq_jsnum_def js_le_def)

lemma clamp_nan: "Math_min (Math_max NaN (Fin 0.0001)) (Fin 0.05) = NaN"
  by simp

text \<open>
  Claim C4 (evaluation at the failing input). On the crossed book the spread is
  \<open>100 - 200\<close>, so \<open>normalizedSpread * volatilityFactor\<close> is negative and its square
  root is NaN; \<open>Math.max\<close> and \<open>Math.min\<close> return NaN: with both sides non-empty the
  result is NaN, outside [0.0001, 0.05].
\<close>

theorem crossed_book_impact_NaN:
  "bids crossed_book \<noteq> [] \<and> asks crossed_book \<noteq> [] \<and>
   calculateMarketImpact crossed_book (Fin 100) (Fin 50) = Some NaN \<and>
   \<not> (\<exists>r. calculateMarketImpact crossed_book (Fin 100) (Fin 50) = Some r \<and> in_range r)"
  by (simp add: calculateMarketImpact_def crossed_book_def Let_def in_range_def)

section \<open>Parsing and sorting\<close>

lemma parseFloat_examples:
  "parseFloat ''100'' = Fin 100" "parseFloat ''101'' = Fin 101" "parseFloat ''102'' = Fin 102"
  "parseFloat ''1'' = Fin 1" "parseFloat ''2'' = Fin 2"
  "parseFloat ''abc'' = NaN"
  by (simp_all add: parseFloat_def Let_def is_ws_def is_digit_def digits_val_def
      exponent_part_def pow10_def)





















section \<open>Malformed ticks\<close>

text \<open>
  The sibling path: when \<open>JSON.parse\<close> throws, the snapshot is kept and the error is set.
\<close>

lemma onmessage_syntax_error:
  "JSON_parse d = None \<Longrightarrow>
   orderbookData (hook (onmessage JSON_parse d w)) = orderbookData (hook w) \<and>
   error (hook (onmessage JSON_parse d w)) = Some ''Failed to parse WebSocket message'' \<and>
   sockets (onmessage JSON_parse d w) = sockets w"
  by (simp add: onmessage_def)

text \<open>
  Claim C2 (evaluation at the failing input). After the socket has opened and the tick
  \<open>good_tick\<close> has been published, the tick whose bid price is the string \<open>abc\<close>
  arrives. \<open>parseFloat\<close> returns NaN and does not throw, so the \<open>catch\<close> branch is not
  taken: the snapshot is replaced by one with the bid price NaN, and \<open>error\<close> stays
  unset. The socket stays open.
\<close>

theorem malformed_tick_published:
  "\<exists>w0 w. run parse_example [SocketOpen 0, SocketMessage 0 ''good''] (mount 0) = Some w0 \<and>
          step parse_example (SocketMessage 0 ''malformed'') w0 = Some w \<and>
          orderbookData (hook w0) =
            \<lparr> bids = [(Fin 100, Fin 1)], asks = [(Fin 102, Fin 1)], timestamp = Fin 6 \<rparr> \<and>
          error (hook w0) = None \<and>
          orderbookData (hook w) = \<lparr> bids = [(NaN, Fin 1)], asks = [], timestamp = Fin 7 \<rparr> \<and>
          error (hook w) = None \<and> sockets w = [OPEN]"
  by (simp add: mount_def run_effect_def connectWebSocket_def onopen_def onmessage_def parse_example_def
      processWebSocketMessage_def good_tick_def malformed_tick_def Let_def Array_sort_def
      parseFloat_examples truthy_def performance_now_def Date_now_def)

section \<open>The reconnect loop\<close>

lemma onmessage_frame [simp]:
  "sockets (onmessage P d w) = sockets w" "timers (onmessage P d w) = timers w"
  "clock (onmessage P d w) = clock w"
  by (simp_all add: onmessage_def Let_def split: option.split)

lemma onmessage_status [simp]:
  "connectionStatus (hook (onmessage P d w)) = connectionStatus (hook w)"
  by (simp add: onmessage_def processWebSocketMessage_def Let_def split: option.split)

lemma closed_butlast:
  "list_all (\<lambda>s. s = CLOSED) ss \<Longrightarrow> list_all (\<lambda>s. s = CLOSED) (butlast ss)"
  by (auto simp add: list_all_iff dest: in_set_butlastD)

lemma loop_inv_mount: "loop_inv (mount origin)"
  by (simp add: loop_inv_def mount_def run_effect_def connectWebSocket_def)

lemma live_is_last:
  assumes "list_all (\<lambda>s. s = CLOSED) (butlast ss)" "i < length ss" "ss ! i \<noteq> CLOSED"
  shows "\<exists>xs x. ss = xs @ [x] \<and> i = length xs \<and> list_all (\<lambda>s. s = CLOSED) xs"
proof -
  from assms(2) obtain xs x where ss: "ss = xs @ [x]"
    by (cases ss rule: rev_cases) auto
  have "\<not> i < length xs"
  proof
    assume "i < length xs"
    then have "ss ! i \<in> set xs" by (simp add: ss nth_append)
    with assms(1) ss have "ss ! i = CLOSED" by (simp add: list_all_iff)
    with assms(3) show False by simp
  qed
  with assms(2) ss have "i = length xs" by simp
  with assms(1) ss show ?thesis by simp
qed

lemma live_no_timer:
  assumes "loop_inv w" "i < length (sockets w)" "sockets w ! i \<noteq> CLOSED"
  shows "timers w = []"
proof -
  from assms(2,3) have "\<not> list_all (\<lambda>s. s = CLOSED) (sockets w)"
    by (auto simp add: list_all_length)
  with assms(1) show ?thesis by (simp add: loop_inv_def)
qed

lemma loop_inv_step:
  assumes "loop_inv w" "step P e w = Some w'" "socket_or_timer e"
  shows "loop_inv w'"
proof (cases e)
  case (Tick n)
  with assms show ?thesis by (auto simp add: loop_inv_def)
next
  case (SocketOpen i)
  with assms(2) have i: "i < length (sockets w)" "sockets w ! i = CONNECTING"
    and w': "w' = onopen (w\<lparr> sockets := (sockets w)[i := OPEN] \<rparr>)"
    by (auto split: if_splits)
  from assms(1) i have t: "timers w = []" by (intro live_no_timer [of w i]) simp_all
  from assms(1) i obtain xs x where "sockets w = xs @ [x]" "i = length xs" "list_all (\<lambda>s. s = CLOSED) xs"
    using live_is_last [of "sockets w" i] by (auto simp add: loop_inv_def)
  with t w' show ?thesis by (simp add: loop_inv_def onopen_def)
next
  case (SocketMessage i d)
  with assms show ?thesis
    by (auto simp add: loop_inv_def split: if_splits)
next
  case (SocketClose i)
  with assms(2) have i: "i < length (sockets w)" "sockets w ! i \<noteq> CLOSED"
    and w': "w' = onclose (w\<lparr> sockets := (sockets w)[i := CLOSED] \<rparr>)"
    by (auto split: if_splits)
  from assms(1) i have t: "timers w = []" by (intro live_no_timer [of w i]) simp_all
  from assms(1) i obtain xs x where "sockets w = xs @ [x]" "i = length xs" "list_all (\<lambda>s. s = CLOSED) xs"
    using live_is_last [of "sockets w" i] by (auto simp add: loop_inv_def)
  with t w' show ?thesis by (simp add: loop_inv_def onclose_def)
next
  case (SocketFail i)
  with assms(2) have i: "i < length (sockets w)" "sockets w ! i \<noteq> CLOSED"
    and w': "w' = onclose (onerror (w\<lparr> sockets := (sockets w)[i := CLOSED] \<rparr>))"
    by (auto split: if_splits)
  from assms(1) i have t: "timers w = []" by (intro live_no_timer [of w i]) simp_all
  from assms(1) i obtain xs x where "sockets w = xs @ [x]" "i = length xs" "list_all (\<lambda>s. s = CLOSED) xs"
    using live_is_last [of "sockets w" i] by (auto simp add: loop_inv_def)
  with t w' show ?thesis by (simp add: loop_inv_def onclose_def onerror_def)
next
  case (TimerExpired k)
  with assms(2) have k: "k < length (timers w)"
    and w': "w' = reconnect (w\<lparr> timers := take k (timers w) @ drop (Suc k) (timers w) \<rparr>)"
    by (auto split: if_splits)
  from assms(1) k have one: "length (timers w) = 1" and closed: "list_all (\<lambda>s. s = CLOSED) (sockets w)"
    by (auto simp add: loop_inv_def)
  from one k have "take k (timers w) @ drop (Suc k) (timers w) = []" by simp
  with w' closed closed_butlast [OF closed] show ?thesis
    by (auto simp add: loop_inv_def reconnect_def connectWebSocket_def split: option.splits)
qed (use assms(3) in simp_all)

lemma closed_no_socket_event:
  assumes "list_all (\<lambda>s. s = CLOSED) (sockets w)"
  shows "step P (SocketOpen i) w = None" "step P (SocketMessage i d) w = None"
    "step P (SocketClose i) w = None" "step P (SocketFail i) w = None"
  using assms by (auto simp add: list_all_length)

lemma step_clock: "step P e w = Some w' \<Longrightarrow> clock w \<le> clock w'"
  by (cases e)
    (auto simp add: onopen_def onclose_def onerror_def reconnect_def cleanup_def run_effect_def
      connectWebSocket_def split: if_splits option.splits)

lemma waiting_step:
  assumes "waiting t w" "step P e w = Some w'" "socket_or_timer e"
  shows "waiting t w'"
proof -
  from assms have inv: "loop_inv w'"
    by (auto simp add: waiting_def intro: loop_inv_step)
  show ?thesis
  proof (cases "t + 5000 \<le> clock w")
    case True
    with step_clock [OF assms(2)] inv show ?thesis by (simp add: waiting_def)
  next
    case False
    with assms(1) have st: "connectionStatus (hook w) \<noteq> Connecting"
      and closed: "list_all (\<lambda>s. s = CLOSED) (sockets w)"
      and due: "list_all (\<lambda>d. t + 5000 \<le> d) (timers w)"
      by (simp_all add: waiting_def)
    show ?thesis
    proof (cases e)
      case (Tick n)
      with assms(2) st closed due inv show ?thesis by (auto simp add: waiting_def)
    next
      case (TimerExpired k)
      with assms(2) have "k < length (timers w)" "timers w ! k \<le> clock w"
        by (auto split: if_splits)
      with due have "t + 5000 \<le> clock w"
        by (auto simp add: list_all_length)
      with False show ?thesis by simp
    qed (use assms(2,3) closed_no_socket_event [OF closed] in simp_all)
  qed
qed

lemma waiting_run:
  "waiting t w \<Longrightarrow> run P es w = Some w' \<Longrightarrow> list_all socket_or_timer es \<Longrightarrow> waiting t w'"
proof (induction es arbitrary: w)
  case Nil
  then show ?case by simp
next
  case (Cons e es)
  then show ?case
    by (auto split: option.splits intro: waiting_step)
qed

lemma loop_inv_run:
  "loop_inv w \<Longrightarrow> run P es w = Some w' \<Longrightarrow> list_all socket_or_timer es \<Longrightarrow> loop_inv w'"
proof (induction es arbitrary: w)
  case Nil
  then show ?case by simp
next
  case (Cons e es)
  then show ?case
    by (auto split: option.splits intro: loop_inv_step)
qed

lemma close_starts_waiting:
  assumes "loop_inv w" "step P (SocketClose i) w = Some w1 \<or> step P (SocketFail i) w = Some w1"
  shows "waiting (clock w) w1 \<and> connectionStatus (hook w1) = Disconnected"
proof -
  from assms(2) have i: "i < length (sockets w)" "sockets w ! i \<noteq> CLOSED"
    by (auto split: if_splits)
  from assms(1) i have t: "timers w = []" by (intro live_no_timer [of w i]) simp_all
  from assms(1) i obtain xs x where ss: "sockets w = xs @ [x]" "i = length xs" "list_all (\<lambda>s. s = CLOSED) xs"
    using live_is_last [of "sockets w" i] by (auto simp add: loop_inv_def)
  from assms(2) have inv: "loop_inv w1"
    using loop_inv_step [OF assms(1), of P "SocketClose i" w1]
      loop_inv_step [OF assms(1), of P "SocketFail i" w1] by auto
  from assms(2) i t ss have
    "connectionStatus (hook w1) = Disconnected \<and> list_all (\<lambda>s. s = CLOSED) (sockets w1) \<and>
     timers w1 = [clock w + 5000]"
    by (auto simp add: onclose_def onerror_def)
  with inv show ?thesis by (simp add: waiting_def)
qed

text \<open>
  While the effect has run once, the reconnect keeps its delay: when a socket closes at
  clock time \<open>t\<close>, cleanly or by failure, the status is \<open>disconnected\<close> right after the
  close handler, and in every later state in which the status is \<open>connecting\<close> the
  clock has reached \<open>t + 5000\<close> milliseconds.
\<close>

lemma single_run_reconnect_delay:
  assumes "run P es (mount origin) = Some w" "list_all socket_or_timer es"
    and "step P (SocketClose i) w = Some w1 \<or> step P (SocketFail i) w = Some w1"
    and "run P es' w1 = Some w2" "list_all socket_or_timer es'"
  shows "connectionStatus (hook w1) = Disconnected \<and>
         (connectionStatus (hook w2) = Connecting \<longrightarrow> clock w + 5000 \<le> clock w2)"
proof -
  have "loop_inv w"
    using loop_inv_mount assms(1,2) by (rule loop_inv_run)
  then have c: "waiting (clock w) w1 \<and> connectionStatus (hook w1) = Disconnected"
    using assms(3) by (rule close_starts_waiting)
  then have "waiting (clock w) w2"
    using assms(4,5) by (auto intro: waiting_run)
  with c show ?thesis
    by (auto simp add: waiting_def)
qed

text \<open>
  Claim C9 (evaluation at the failing input). The effect is cleaned up and run again at
  time 0, as React does with a mounted component in strict mode. The clean-up closes
  the first socket, and the close event of that socket schedules a reconnect for time
  5000, which nothing cancels. The second socket opens, and at time 3000 it closes
  unexpectedly: the status is \<open>disconnected\<close> at once and a second timer is due at 8000.
  At time 5000 the first timer runs, finds the socket of \<open>wsRef\<close> closed and calls
  \<open>connectWebSocket\<close>: the status is \<open>connecting\<close> 2000 ms after the close.
\<close>

theorem rerun_reconnects_early:
  "\<exists>w w1 w2.
     run parse_example [EffectCleanup, EffectRun, SocketFail 0, SocketOpen 1, Tick 3000] (mount 0)
       = Some w \<and>
     step parse_example (SocketClose 1) w = Some w1 \<and>
     run parse_example [Tick 2000, TimerExpired 0] w1 = Some w2 \<and>
     clock w = 3000 \<and> connectionStatus (hook w) = Connected \<and>
     connectionStatus (hook w1) = Disconnected \<and> timers w1 = [5000, 8000] \<and>
     connectionStatus (hook w2) = Connecting \<and> clock w2 = 5000 \<and>
     \<not> clock w + 5000 \<le> clock w2"
  by (simp add: mount_def run_effect_def cleanup_def connectWebSocket_def onopen_def onclose_def
      onerror_def reconnect_def)

end
